theory Spec2Isabelle
  imports Main
begin

section \<open>Research Assistant: the conversation session of \<open>LO_Week2_code_assignment.py\<close>\<close>

text \<open>
  The program is one Streamlit script. Its state lives in \<open>st.session_state\<close>
  (four keys), its handlers are the bodies of the \<open>if\<close> statements that follow the
  widgets, and its only call to the outside is \<open>Runner.run(agent, prompt)\<close>.

  Python strings are modelled as \<open>string\<close>, read as the UTF-8 bytes of the text.
  The operations the script applies to strings (concatenation, \<open>join\<close>, equality,
  \<open>replace\<close> of a one-character ASCII pattern) act on the bytes as they act on the
  code points. A line feed is the byte \<open>0x0A\<close>.
\<close>

subsection \<open>Strings\<close>

abbreviation LF :: string where
  "LF \<equiv> [CHR 0x0A]"

text \<open>\<open>sep.join(xs)\<close>\<close>

fun join :: "string \<Rightarrow> string list \<Rightarrow> string" where
  "join sep [] = []"
| "join sep [x] = x"
| "join sep (x # y # ys) = x @ sep @ join sep (y # ys)"

text \<open>
  \<open>s.replace(old, new)\<close>: every non-overlapping occurrence of \<open>old\<close>, found from
  the left, is replaced; an empty \<open>old\<close> matches before every character and at the end.
\<close>

function replace :: "string \<Rightarrow> string \<Rightarrow> string \<Rightarrow> string" where
  "replace old new s =
     (if old = [] then new @ concat (map (\<lambda>c. c # new) s)
      else if s = [] then []
      else if take (length old) s = old then new @ replace old new (drop (length old) s)
      else hd s # replace old new (tl s))"
  by pat_completeness auto
termination
  by (relation "measure (\<lambda>(old, new, s). length s)") auto

declare replace.simps [simp del]

text \<open>
  \<open>s.capitalize()\<close> on ASCII text: the first character in upper case, the others in
  lower case. Bytes outside \<open>a..z\<close> and \<open>A..Z\<close> are kept, so on a text with
  letters outside ASCII this differs from Python, which changes the case of those
  letters too. The script applies it to the role of a message only, and the roles it
  writes are \<open>user\<close> and \<open>assistant\<close>; no property below depends on its value.
\<close>

definition upper_char :: "char \<Rightarrow> char" where
  "upper_char c =
     (if 97 \<le> (of_char c :: nat) \<and> (of_char c :: nat) \<le> 122
      then char_of ((of_char c :: nat) - 32) else c)"

definition lower_char :: "char \<Rightarrow> char" where
  "lower_char c =
     (if 65 \<le> (of_char c :: nat) \<and> (of_char c :: nat) \<le> 90
      then char_of ((of_char c :: nat) + 32) else c)"

definition capitalize :: "string \<Rightarrow> string" where
  "capitalize s = (case s of [] \<Rightarrow> [] | c # cs \<Rightarrow> upper_char c # map lower_char cs)"

subsection \<open>Messages and session state\<close>

text \<open>A message is the dictionary \<open>{"role": ..., "content": ...}\<close>.\<close>

record message =
  role :: string
  content :: string

text \<open>The four keys of \<open>st.session_state\<close>.\<close>

record session_state =
  messages :: "message list"
  use_web_search :: bool
  use_file_search :: bool
  conversation_active :: bool

text \<open>Lines 15 to 22: the values the keys get when the session starts.\<close>

definition initial_session_state :: session_state where
  "initial_session_state =
     \<lparr>messages = [], use_web_search = True, use_file_search = True,
      conversation_active = True\<rparr>"

subsection \<open>The conversation store\<close>

text \<open>\<open>st.session_state.messages.append(m)\<close>\<close>

definition append_message :: "message \<Rightarrow> session_state \<Rightarrow> session_state" where
  "append_message m s = s\<lparr>messages := messages s @ [m]\<rparr>"

text \<open>
  The "Clear Conversation" button (lines 76 to 78): \<open>st.session_state.messages = []\<close>,
  then the script is run again.
\<close>

definition clear_conversation :: "session_state \<Rightarrow> session_state" where
  "clear_conversation s = s\<lparr>messages := []\<rparr>"

text \<open>
  The "End Conversation" button (lines 81 to 87): the flag is lowered, the closing
  message is appended, then the script is run again.
\<close>

definition end_message :: message where
  "end_message =
     \<lparr>role = ''assistant'',
      content = ''Conversation ended. Leave the window open to restart it anytime. Otherwise you may close the browser window.''\<rparr>"

definition end_conversation :: "session_state \<Rightarrow> session_state" where
  "end_conversation s =
     append_message end_message (s\<lparr>conversation_active := False\<rparr>)"

text \<open>A sequence of store operations, applied from left to right.\<close>

datatype store_op = Append message | Clear

fun apply_op :: "session_state \<Rightarrow> store_op \<Rightarrow> session_state" where
  "apply_op s (Append m) = append_message m s"
| "apply_op s Clear = clear_conversation s"

definition run_ops :: "session_state \<Rightarrow> store_op list \<Rightarrow> session_state" where
  "run_ops s ops = foldl apply_op s ops"

subsection \<open>The agent and the request sent to it\<close>

text \<open>
  \<open>FileSearchTool(max_num_results=3, vector_store_ids=[vector_store_id])\<close>; the
  identifier is read from the environment at line 12 and is a parameter here.
\<close>

datatype tool = WebSearchTool | FileSearchTool nat "string list"

record agent =
  name :: string
  instructions :: string
  tools :: "tool list"

definition agent_instructions :: string where
  "agent_instructions =
     ''You are a world class lawyer, capable of reasoning, finding weaknesses in briefs, using the legal documents that support your arguments and accessing files on Google Drive.  '' @ LF @
     ''        When you summarize documents such as briefs do so in clear and accurate language.  When you provide output that identifies weaknesses in the brief'' @ [CHR 0xE2, CHR 0x80, CHR 0x99] @ ''s legal arguments be logical.  Cite case references. '' @ LF @
     ''        You also are skilled in researching anything related to the law using resources at your disposal.  However, never ever suggest or use incorrect or unverifiable resources and case law.  Only access files that are publicly available or authorized for use.''"

text \<open>Lines 25 to 40. The tools follow the two flags of the session state.\<close>

definition create_research_assistant :: "string \<Rightarrow> session_state \<Rightarrow> agent" where
  "create_research_assistant vector_store_id s =
     (let tools0 = [];
          tools1 = (if use_web_search s then tools0 @ [WebSearchTool] else tools0);
          tools2 = (if use_file_search s
                    then tools1 @ [FileSearchTool 3 [vector_store_id]] else tools1)
      in \<lparr>name = ''Research Assistant'', instructions = agent_instructions,
          tools = tools2\<rparr>)"

text \<open>Line 45: one line \<open>role: content\<close> for each message of the history.\<close>

definition conversation_context :: "message list \<Rightarrow> string" where
  "conversation_context history =
     join LF (map (\<lambda>msg. role msg @ '': '' @ content msg) history)"

text \<open>Line 46.\<close>

definition research_prompt :: "string \<Rightarrow> message list \<Rightarrow> string" where
  "research_prompt question history =
     ''Context of our conversation:'' @ LF @ conversation_context history @ LF @ LF @
     ''Current question: '' @ question"

text \<open>
  What the user's browser is shown and what is sent out, in the order the script does it.
\<close>

datatype effect =
    StError string
  | SidebarWarning string
  | ChatMarkdown string string
  | Spinner string
  | RunnerRun agent string

text \<open>
  Lines 43 to 48. \<open>Runner.run\<close> is the hosted agent: a parameter, which gives the
  final output or raises. The call is recorded with the agent and the prompt it gets.
\<close>

definition get_research_response ::
  "(agent \<Rightarrow> string \<Rightarrow> 'e + string) \<Rightarrow> string \<Rightarrow> session_state \<Rightarrow> string \<Rightarrow> message list
     \<Rightarrow> effect list \<times> ('e + string)" where
  "get_research_response runner vector_store_id s question history =
     (let agent = create_research_assistant vector_store_id s;
          prompt = research_prompt question history
      in ([RunnerRun agent prompt], runner agent prompt))"

subsection \<open>The chat input\<close>

text \<open>
  The result of one pass through lines 126 to 139: the session state it leaves, the
  effects in order, and the exception that left the script uncaught, if any.
\<close>

record 'e turn =
  state :: session_state
  effects :: "effect list"
  raised :: "'e option"

text \<open>The test of lines 66 and 128, negated: the branch that sends.\<close>

definition can_send :: "session_state \<Rightarrow> bool" where
  "can_send s = (\<not> (\<not> use_web_search s \<and> \<not> use_file_search s))"

text \<open>
  Lines 126 to 139. \<open>st.chat_input\<close> gives \<open>None\<close> or the text; \<open>if user_question\<close>
  is false for both \<open>None\<close> and the empty text. Nothing in the script catches an
  exception of the agent call: it ends the pass after the user's message was appended.
\<close>

definition chat_input_handler ::
  "(agent \<Rightarrow> string \<Rightarrow> 'e + string) \<Rightarrow> string \<Rightarrow> session_state \<Rightarrow> string option
     \<Rightarrow> 'e turn" where
  "chat_input_handler runner vector_store_id s user_question =
     (case user_question of
        None \<Rightarrow> \<lparr>state = s, effects = [], raised = None\<rparr>
      | Some q \<Rightarrow>
          if q = [] then \<lparr>state = s, effects = [], raised = None\<rparr>
          else if \<not> use_web_search s \<and> \<not> use_file_search s then
            \<lparr>state = s,
             effects = [StError ''Please select at least one search source in the sidebar''],
             raised = None\<rparr>
          else
            (let s1 = append_message \<lparr>role = ''user'', content = q\<rparr> s;
                 shown = [ChatMarkdown ''user'' q, Spinner ''Researching...''];
                 (calls, result) =
                   get_research_response runner vector_store_id s1 q (messages s1)
             in case result of
                  Inl e \<Rightarrow> \<lparr>state = s1, effects = shown @ calls, raised = Some e\<rparr>
                | Inr response \<Rightarrow>
                    \<lparr>state = append_message \<lparr>role = ''assistant'', content = response\<rparr> s1,
                     effects = shown @ calls @ [ChatMarkdown ''assistant'' response],
                     raised = None\<rparr>))"

text \<open>The requests that reached the agent during a pass.\<close>

fun runner_calls :: "effect list \<Rightarrow> (agent \<times> string) list" where
  "runner_calls [] = []"
| "runner_calls (RunnerRun a p # es) = (a, p) # runner_calls es"
| "runner_calls (_ # es) = runner_calls es"

subsection \<open>The transcript\<close>

definition html_head :: string where
  "html_head =
     LF @ ''    <html><head><style>'' @ LF @
     ''    body { font-family: Arial, sans-serif; padding: 20px; }'' @ LF @
     ''    .user { color: blue; margin-bottom: 10px; }'' @ LF @
     ''    .assistant { color: green; margin-bottom: 20px; }'' @ LF @
     ''    .message { border-bottom: 1px solid #ddd; padding-bottom: 10px; }'' @ LF @
     ''    </style></head><body>'' @ LF @
     ''    <h2>Conversation Transcript</h2>'' @ LF @
     ''    ''"

text \<open>Line 115: the four replacements, in the order of the source.\<close>

definition escape_content :: "string \<Rightarrow> string" where
  "escape_content c =
     replace LF ''<br>''
       (replace ''>'' ''&gt;'' (replace ''<'' ''&lt;'' (replace ''&'' ''&amp;'' c)))"

text \<open>Lines 114 to 116: the block that one message adds.\<close>

definition message_div :: "message \<Rightarrow> string" where
  \<open>message_div msg =
     (let role_class = (if role msg = ''user'' then ''user'' else ''assistant'');
          content = escape_content (content msg)
      in ''<div class="message '' @ role_class @ ''"><strong>'' @ capitalize (role msg) @
         '':</strong><br>'' @ content @ ''</div>'')\<close>

text \<open>Lines 103 to 118: the loop adds the blocks to \<open>html\<close> one after the other.\<close>

definition format_messages_as_html :: "message list \<Rightarrow> string" where
  "format_messages_as_html msgs =
     foldl (\<lambda>html msg. html @ message_div msg) html_head msgs @ ''</body></html>''"

subsection \<open>The sidebar\<close>

text \<open>
  Lines 66 and 67: the warning of the sidebar, shown on every pass while no source is
  selected.
\<close>

definition sidebar_warning :: "session_state \<Rightarrow> effect list" where
  "sidebar_warning s =
     (if \<not> use_web_search s \<and> \<not> use_file_search s
      then [SidebarWarning ''Please select at least one search source''] else [])"

subsection \<open>Specification-level notions\<close>

text \<open>
  The messages a sequence of operations appends, in order, and the operations after
  the last \<open>Clear\<close>.
\<close>

fun appended :: "store_op list \<Rightarrow> message list" where
  "appended [] = []"
| "appended (Append m # ops) = m # appended ops"
| "appended (Clear # ops) = appended ops"

definition since_last_clear :: "store_op list \<Rightarrow> store_op list" where
  "since_last_clear ops = rev (takeWhile (\<lambda>op. op \<noteq> Clear) (rev ops))"

text \<open>
  The number of stored messages that the \<open>Clear\<close> operations of a sequence remove:
  each \<open>Clear\<close> removes what the store holds when it runs.
\<close>

fun removed_by_clear :: "session_state \<Rightarrow> store_op list \<Rightarrow> nat" where
  "removed_by_clear s [] = 0"
| "removed_by_clear s (Append m # ops) = removed_by_clear (append_message m s) ops"
| "removed_by_clear s (Clear # ops) =
     length (messages s) + removed_by_clear (clear_conversation s) ops"

text \<open>The escaping of one character, as the specification words it.\<close>

definition escape_char :: "char \<Rightarrow> string" where
  "escape_char x =
     (if x = CHR ''&'' then ''&amp;''
      else if x = CHR ''<'' then ''&lt;''
      else if x = CHR ''>'' then ''&gt;''
      else if x = CHR 0x0A then ''<br>''
      else [x])"

text \<open>
  A text carries no raw markup character of its own: every \<open>&\<close> starts one of the three
  entities, every \<open><\<close> starts a line break \<open><br>\<close>, and there is no \<open>>\<close> and no line
  feed outside these.
\<close>

fun well_escaped :: "string \<Rightarrow> bool" where
  "well_escaped [] = True"
| "well_escaped (c # cs) =
     (if c = CHR ''&''
      then (take 4 cs = ''amp;'' \<or> take 3 cs = ''lt;'' \<or> take 3 cs = ''gt;'') \<and> well_escaped cs
      else if c = CHR ''<'' then take 3 cs = ''br>'' \<and> well_escaped (drop 3 cs)
      else if c = CHR ''>'' \<or> c = CHR 0x0A then False
      else well_escaped cs)"

text \<open>Two stand-ins for the hosted agent: one answers, one raises.\<close>

definition stub_answer :: "string \<Rightarrow> agent \<Rightarrow> string \<Rightarrow> string + string" where
  "stub_answer a ag p = Inr a"

definition stub_failure :: "string \<Rightarrow> agent \<Rightarrow> string \<Rightarrow> string + string" where
  "stub_failure e ag p = Inl e"

text \<open>A session with both sources switched off, and the user's message for a question.\<close>

definition no_tool_state :: session_state where
  "no_tool_state = initial_session_state\<lparr>use_web_search := False, use_file_search := False\<rparr>"

definition user_message :: "string \<Rightarrow> message" where
  "user_message q = \<lparr>role = ''user'', content = q\<rparr>"

definition assistant_message :: "string \<Rightarrow> message" where
  "assistant_message a = \<lparr>role = ''assistant'', content = a\<rparr>"

text \<open>A session that was ended right after it started.\<close>

definition ended_state :: session_state where
  "ended_state = end_conversation initial_session_state"

section \<open>Properties\<close>

subsection \<open>Auxiliary facts\<close>

lemma replace_Nil: "old \<noteq> [] \<Longrightarrow> replace old new [] = []"
  by (subst replace.simps) simp

text \<open>With a pattern of one character, \<open>replace\<close> works character by character.\<close>

lemma replace_single:
  "replace [c] new s = concat (map (\<lambda>x. if x = c then new else [x]) s)"
proof (induction s)
  case Nil
  show ?case by (simp add: replace_Nil)
next
  case (Cons x xs)
  show ?case
    by (subst replace.simps) (simp add: Cons.IH)
qed

lemma escape_content_Nil: "escape_content [] = []"
  by (simp add: escape_content_def replace_single)

lemma escape_content_Cons: "escape_content (x # xs) = escape_char x @ escape_content xs"
  by (simp add: escape_content_def replace_single escape_char_def)

lemma escape_content_chars: "escape_content c = concat (map escape_char c)"
  by (induction c) (simp_all add: escape_content_Nil escape_content_Cons)

lemma well_escaped_step: "well_escaped (escape_char x @ r) = well_escaped r"
  by (simp add: escape_char_def)

lemma well_escaped_content: "well_escaped (escape_content c)"
  by (induction c) (simp_all add: escape_content_Nil escape_content_Cons well_escaped_step)

lemma foldl_message_div:
  "foldl (\<lambda>html msg. html @ message_div msg) acc msgs = acc @ concat (map message_div msgs)"
  by (induction msgs arbitrary: acc) simp_all

lemma join_snoc:
  "join sep (xs @ [x]) = (if xs = [] then x else join sep xs @ sep @ x)"
  by (induction sep xs rule: join.induct) simp_all

lemma conversation_context_snoc:
  "conversation_context (h @ [m]) =
     (if h = [] then [] else conversation_context h @ LF) @ role m @ '': '' @ content m"
  by (simp add: conversation_context_def join_snoc)

lemma create_research_assistant_messages:
  "create_research_assistant v (s\<lparr>messages := ms\<rparr>) = create_research_assistant v s"
  by (simp add: create_research_assistant_def)

lemma chat_input_handler_rejects:
  "\<not> can_send s \<Longrightarrow> q \<noteq> [] \<Longrightarrow>
     chat_input_handler runner v s (Some q) =
       \<lparr>state = s,
        effects = [StError ''Please select at least one search source in the sidebar''],
        raised = None\<rparr>"
  by (simp add: chat_input_handler_def can_send_def)

lemma chat_input_handler_sends:
  "can_send s \<Longrightarrow> q \<noteq> [] \<Longrightarrow>
     chat_input_handler runner v s (Some q) =
       (case runner (create_research_assistant v s)
               (research_prompt q (messages s @ [user_message q])) of
          Inl e \<Rightarrow>
            \<lparr>state = s\<lparr>messages := messages s @ [user_message q]\<rparr>,
             effects = [ChatMarkdown ''user'' q, Spinner ''Researching...'',
                        RunnerRun (create_research_assistant v s)
                          (research_prompt q (messages s @ [user_message q]))],
             raised = Some e\<rparr>
        | Inr a \<Rightarrow>
            \<lparr>state = s\<lparr>messages := messages s @ [user_message q, assistant_message a]\<rparr>,
             effects = [ChatMarkdown ''user'' q, Spinner ''Researching...'',
                        RunnerRun (create_research_assistant v s)
                          (research_prompt q (messages s @ [user_message q])),
                        ChatMarkdown ''assistant'' a],
             raised = None\<rparr>)"
  by (simp add: chat_input_handler_def can_send_def get_research_response_def Let_def
      create_research_assistant_messages user_message_def assistant_message_def
      append_message_def split: sum.splits)

lemma run_ops_snoc: "run_ops s (ops @ [op]) = apply_op (run_ops s ops) op"
  by (simp add: run_ops_def)

lemma appended_append: "appended (xs @ ys) = appended xs @ appended ys"
  by (induction xs rule: appended.induct) simp_all

lemma since_last_clear_snoc_Append:
  "since_last_clear (ops @ [Append m]) = since_last_clear ops @ [Append m]"
  by (simp add: since_last_clear_def)

lemma since_last_clear_snoc_Clear: "since_last_clear (ops @ [Clear]) = []"
  by (simp add: since_last_clear_def)

lemma messages_run_ops:
  "messages (run_ops s ops) =
     (if Clear \<in> set ops then [] else messages s) @ appended (since_last_clear ops)"
proof (induction ops rule: rev_induct)
  case Nil
  show ?case by (simp add: run_ops_def since_last_clear_def)
next
  case (snoc op ops)
  show ?case
  proof (cases op)
    case (Append m)
    then show ?thesis
      using snoc.IH
      by (simp add: run_ops_snoc since_last_clear_snoc_Append appended_append
          append_message_def)
  next
    case Clear
    then show ?thesis
      by (simp add: run_ops_snoc since_last_clear_snoc_Clear clear_conversation_def)
  qed
qed

lemma run_ops_Cons: "run_ops s (op # ops) = run_ops (apply_op s op) ops"
  by (simp add: run_ops_def)

lemma length_run_ops:
  "length (messages (run_ops s ops)) + removed_by_clear s ops =
     length (messages s) + length (appended ops)"
proof (induction ops arbitrary: s)
  case Nil
  show ?case by (simp add: run_ops_def)
next
  case (Cons op ops)
  show ?case
  proof (cases op)
    case (Append m)
    then show ?thesis
      using Cons.IH [of "append_message m s"]
      by (simp add: run_ops_Cons) (simp add: append_message_def)
  next
    case Clear
    then show ?thesis
      using Cons.IH [of "clear_conversation s"]
      by (simp add: run_ops_Cons) (simp add: clear_conversation_def)
  qed
qed

subsection \<open>Sending needs a search source\<close>

text \<open>
  Claim C1. Whatever the two flags are set to, \<open>can_send\<close> holds exactly when one of
  them is set, and the sidebar warns exactly when it does not hold. When it does not
  hold, a submitted question (a text that is not empty,
  which is what \<open>st.chat_input\<close> hands over on a submission) only shows the error
  message: the session state, and so the message list, is what it was, and no request
  goes to the agent.
\<close>

theorem ask_without_source_rejected:
  "can_send (s\<lparr>use_web_search := w, use_file_search := f\<rparr>) = (w \<or> f) \<and>
   sidebar_warning s =
     (if can_send s then [] else [SidebarWarning ''Please select at least one search source'']) \<and>
   (\<not> can_send s \<and> q \<noteq> [] \<longrightarrow>
      effects (chat_input_handler runner v s (Some q)) =
        [StError ''Please select at least one search source in the sidebar''] \<and>
      raised (chat_input_handler runner v s (Some q)) = None \<and>
      state (chat_input_handler runner v s (Some q)) = s \<and>
      messages (state (chat_input_handler runner v s (Some q))) = messages s \<and>
      runner_calls (effects (chat_input_handler runner v s (Some q))) = [])"
  by (simp add: chat_input_handler_rejects) (simp add: can_send_def sidebar_warning_def)

theorem ask_without_source_rejected_witness:
  "\<not> can_send no_tool_state \<and> ''test'' \<noteq> [] \<and>
   effects (chat_input_handler (stub_answer ''A'') ''vs'' no_tool_state (Some ''test'')) =
     [StError ''Please select at least one search source in the sidebar''] \<and>
   state (chat_input_handler (stub_answer ''A'') ''vs'' no_tool_state (Some ''test'')) =
     no_tool_state \<and>
   messages (state (chat_input_handler (stub_answer ''A'') ''vs'' no_tool_state (Some ''test''))) = []"
  using ask_without_source_rejected
    [where s = no_tool_state and q = "''test''" and runner = "stub_answer ''A''" and v = "''vs''"]
  by (simp add: no_tool_state_def initial_session_state_def can_send_def)

subsection \<open>A turn\<close>

text \<open>
  Claim C2. When the agent call of a turn raises, the exception leaves the script
  uncaught (nothing swallows it, so the turn ends with it), the user's message of the
  turn stays in the store as its last entry, no assistant message follows it, and
  nothing is shown for the assistant.
\<close>

theorem failed_turn_keeps_user_message:
  assumes "can_send s" and "q \<noteq> []"
    and "runner (create_research_assistant v s)
           (research_prompt q (messages s @ [\<lparr>role = ''user'', content = q\<rparr>])) = Inl e"
  shows "messages (state (chat_input_handler runner v s (Some q))) =
           messages s @ [\<lparr>role = ''user'', content = q\<rparr>] \<and>
         raised (chat_input_handler runner v s (Some q)) = Some e \<and>
         effects (chat_input_handler runner v s (Some q)) =
           [ChatMarkdown ''user'' q, Spinner ''Researching...'',
            RunnerRun (create_research_assistant v s)
              (research_prompt q (messages s @ [\<lparr>role = ''user'', content = q\<rparr>]))]"
  using assms by (simp add: chat_input_handler_sends user_message_def)

theorem failed_turn_keeps_user_message_witness:
  "can_send initial_session_state \<and> ''Q1'' \<noteq> [] \<and>
   stub_failure ''quota'' (create_research_assistant ''vs'' initial_session_state)
     (research_prompt ''Q1''
        (messages initial_session_state @ [\<lparr>role = ''user'', content = ''Q1''\<rparr>])) =
     Inl ''quota'' \<and>
   messages (state (chat_input_handler (stub_failure ''quota'') ''vs'' initial_session_state
                      (Some ''Q1''))) =
     [\<lparr>role = ''user'', content = ''Q1''\<rparr>] \<and>
   raised (chat_input_handler (stub_failure ''quota'') ''vs'' initial_session_state
             (Some ''Q1'')) = Some ''quota''"
  using failed_turn_keeps_user_message
    [where s = initial_session_state and q = "''Q1''" and runner = "stub_failure ''quota''"
       and v = "''vs''" and e = "''quota''"]
  by (simp add: can_send_def initial_session_state_def stub_failure_def)

text \<open>
  Claim C4. When the agent answers \<open>a\<close> to the question \<open>q\<close>, the store afterwards is
  the store before, then the user's message with \<open>q\<close>, then the assistant's message
  with \<open>a\<close>; the turn ends without an exception.
\<close>

theorem successful_turn_appends_two:
  assumes "can_send s" and "q \<noteq> []"
    and "runner (create_research_assistant v s)
           (research_prompt q (messages s @ [\<lparr>role = ''user'', content = q\<rparr>])) = Inr a"
  shows "messages (state (chat_input_handler runner v s (Some q))) =
           messages s @
           [\<lparr>role = ''user'', content = q\<rparr>, \<lparr>role = ''assistant'', content = a\<rparr>] \<and>
         raised (chat_input_handler runner v s (Some q)) = None"
  using assms by (simp add: chat_input_handler_sends user_message_def assistant_message_def)

theorem successful_turn_appends_two_witness:
  "can_send initial_session_state \<and> ''Q1'' \<noteq> [] \<and>
   stub_answer ''A1'' (create_research_assistant ''vs'' initial_session_state)
     (research_prompt ''Q1''
        (messages initial_session_state @ [\<lparr>role = ''user'', content = ''Q1''\<rparr>])) =
     Inr ''A1'' \<and>
   messages (state (chat_input_handler (stub_answer ''A1'') ''vs'' initial_session_state
                      (Some ''Q1''))) =
     [\<lparr>role = ''user'', content = ''Q1''\<rparr>, \<lparr>role = ''assistant'', content = ''A1''\<rparr>]"
  using successful_turn_appends_two
    [where s = initial_session_state and q = "''Q1''" and runner = "stub_answer ''A1''"
       and v = "''vs''" and a = "''A1''"]
  by (simp add: can_send_def initial_session_state_def stub_answer_def)

text \<open>
  Claim C5, as the specification states it, fails: in a fresh session the question
  \<open>Q\<close> is sent with the context line \<open>user: Q\<close>, while the store before the question
  was empty.
\<close>

theorem context_of_prior_messages_counterexample:
  "runner_calls (effects (chat_input_handler (stub_answer ''A'') ''vs'' initial_session_state
                            (Some ''Q''))) =
     [(create_research_assistant ''vs'' initial_session_state,
       ''Context of our conversation:'' @ LF @ ''user: Q'' @ LF @ LF @ ''Current question: Q'')] \<and>
   runner_calls (effects (chat_input_handler (stub_answer ''A'') ''vs'' initial_session_state
                            (Some ''Q''))) \<noteq>
     [(create_research_assistant ''vs'' initial_session_state,
       research_prompt ''Q'' (messages initial_session_state))]"
  by (simp add: chat_input_handler_sends can_send_def initial_session_state_def stub_answer_def
      research_prompt_def conversation_context_def user_message_def)

text \<open>
  Claim C5, amended. A turn sends one request. Its context is built from the store as
  it is when the agent is called, which is after the user's message was appended: one
  line \<open>role: content\<close> for each earlier message, in store order, and then the line
  \<open>user: q\<close> of the current question. The question is in the request twice: as the
  last line of the context and after \<open>Current question:\<close>.
\<close>

theorem context_includes_current_question:
  assumes "can_send s" and "q \<noteq> []"
  shows "runner_calls (effects (chat_input_handler runner v s (Some q))) =
           [(create_research_assistant v s,
             research_prompt q (messages s @ [\<lparr>role = ''user'', content = q\<rparr>]))] \<and>
         research_prompt q (messages s @ [\<lparr>role = ''user'', content = q\<rparr>]) =
           ''Context of our conversation:'' @ LF @
           (if messages s = [] then [] else conversation_context (messages s) @ LF) @
           ''user: '' @ q @ LF @ LF @ ''Current question: '' @ q \<and>
         conversation_context (messages s) =
           join LF (map (\<lambda>msg. role msg @ '': '' @ content msg) (messages s))"
proof -
  have calls: "runner_calls (effects (chat_input_handler runner v s (Some q))) =
      [(create_research_assistant v s,
        research_prompt q (messages s @ [\<lparr>role = ''user'', content = q\<rparr>]))]"
    using assms by (simp add: chat_input_handler_sends user_message_def split: sum.splits)
  have prompt: "research_prompt q (messages s @ [\<lparr>role = ''user'', content = q\<rparr>]) =
      ''Context of our conversation:'' @ LF @
      (if messages s = [] then [] else conversation_context (messages s) @ LF) @
      ''user: '' @ q @ LF @ LF @ ''Current question: '' @ q"
    by (simp add: research_prompt_def conversation_context_snoc)
  have lines: "conversation_context (messages s) =
      join LF (map (\<lambda>msg. role msg @ '': '' @ content msg) (messages s))"
    by (simp add: conversation_context_def)
  from calls prompt lines show ?thesis by blast
qed

theorem context_includes_current_question_witness:
  "can_send initial_session_state \<and> ''Q'' \<noteq> [] \<and>
   runner_calls (effects (chat_input_handler (stub_answer ''A'') ''vs'' initial_session_state
                            (Some ''Q''))) =
     [(create_research_assistant ''vs'' initial_session_state,
       research_prompt ''Q'' [\<lparr>role = ''user'', content = ''Q''\<rparr>])]"
proof -
  have send: "can_send initial_session_state"
    by (simp add: can_send_def initial_session_state_def)
  have question: "''Q'' \<noteq> []" by simp
  have "runner_calls (effects (chat_input_handler (stub_answer ''A'') ''vs''
          initial_session_state (Some ''Q''))) =
      [(create_research_assistant ''vs'' initial_session_state,
        research_prompt ''Q''
          (messages initial_session_state @ [\<lparr>role = ''user'', content = ''Q''\<rparr>]))]"
    using context_includes_current_question
      [OF send question, where runner = "stub_answer ''A''" and v = "''vs''"]
    by blast
  then have "runner_calls (effects (chat_input_handler (stub_answer ''A'') ''vs''
          initial_session_state (Some ''Q''))) =
      [(create_research_assistant ''vs'' initial_session_state,
        research_prompt ''Q'' [\<lparr>role = ''user'', content = ''Q''\<rparr>])]"
    by (simp add: initial_session_state_def)
  with send question show ?thesis by blast
qed

text \<open>
  Claim C7. In a session whose \<open>conversation_active\<close> flag is down, a question asked
  with a source selected is handled as with the flag up: the turn is the same but for
  the flag, which stays down; the request goes to the agent, the user's message is
  appended, and the answer too when the agent gives one.
\<close>

theorem inactive_session_still_asks:
  assumes "\<not> conversation_active s" and "can_send s" and "q \<noteq> []"
  shows "chat_input_handler runner v s (Some q) =
           (chat_input_handler runner v (s\<lparr>conversation_active := True\<rparr>) (Some q))
             \<lparr>state := (state (chat_input_handler runner v (s\<lparr>conversation_active := True\<rparr>)
                                 (Some q)))
                \<lparr>conversation_active := False\<rparr>\<rparr> \<and>
         runner_calls (effects (chat_input_handler runner v s (Some q))) =
           [(create_research_assistant v s,
             research_prompt q (messages s @ [\<lparr>role = ''user'', content = q\<rparr>]))] \<and>
         messages (state (chat_input_handler runner v s (Some q))) =
           messages s @ [\<lparr>role = ''user'', content = q\<rparr>] @
           (case runner (create_research_assistant v s)
                   (research_prompt q (messages s @ [\<lparr>role = ''user'', content = q\<rparr>])) of
              Inl e \<Rightarrow> [] | Inr a \<Rightarrow> [\<lparr>role = ''assistant'', content = a\<rparr>])"
proof -
  have agent: "create_research_assistant v (s\<lparr>conversation_active := True\<rparr>) =
      create_research_assistant v s"
    by (simp add: create_research_assistant_def)
  have send: "can_send (s\<lparr>conversation_active := True\<rparr>)"
    using assms(2) by (simp add: can_send_def)
  have same: "chat_input_handler runner v s (Some q) =
      (chat_input_handler runner v (s\<lparr>conversation_active := True\<rparr>) (Some q))
        \<lparr>state := (state (chat_input_handler runner v (s\<lparr>conversation_active := True\<rparr>)
                            (Some q)))
           \<lparr>conversation_active := False\<rparr>\<rparr>"
    using assms send by (simp add: chat_input_handler_sends agent split: sum.splits)
  have calls: "runner_calls (effects (chat_input_handler runner v s (Some q))) =
      [(create_research_assistant v s,
        research_prompt q (messages s @ [\<lparr>role = ''user'', content = q\<rparr>]))]"
    using assms by (simp add: chat_input_handler_sends user_message_def split: sum.splits)
  have msgs: "messages (state (chat_input_handler runner v s (Some q))) =
      messages s @ [\<lparr>role = ''user'', content = q\<rparr>] @
      (case runner (create_research_assistant v s)
              (research_prompt q (messages s @ [\<lparr>role = ''user'', content = q\<rparr>])) of
         Inl e \<Rightarrow> [] | Inr a \<Rightarrow> [\<lparr>role = ''assistant'', content = a\<rparr>])"
    using assms
    by (simp add: chat_input_handler_sends user_message_def assistant_message_def
        split: sum.splits)
  from same calls msgs show ?thesis by blast
qed

theorem inactive_session_still_asks_witness:
  "\<not> conversation_active ended_state \<and> can_send ended_state \<and> ''Q'' \<noteq> [] \<and>
   messages (state (chat_input_handler (stub_answer ''A'') ''vs'' ended_state (Some ''Q''))) =
     [end_message, \<lparr>role = ''user'', content = ''Q''\<rparr>, \<lparr>role = ''assistant'', content = ''A''\<rparr>]"
proof -
  have inactive: "\<not> conversation_active ended_state"
    by (simp add: ended_state_def end_conversation_def append_message_def)
  have send: "can_send ended_state"
    by (simp add: ended_state_def end_conversation_def append_message_def can_send_def
        initial_session_state_def)
  have question: "''Q'' \<noteq> []" by simp
  have "messages (state (chat_input_handler (stub_answer ''A'') ''vs'' ended_state (Some ''Q''))) =
      messages ended_state @ [\<lparr>role = ''user'', content = ''Q''\<rparr>] @
      (case stub_answer ''A'' (create_research_assistant ''vs'' ended_state)
              (research_prompt ''Q''
                 (messages ended_state @ [\<lparr>role = ''user'', content = ''Q''\<rparr>])) of
         Inl e \<Rightarrow> [] | Inr a \<Rightarrow> [\<lparr>role = ''assistant'', content = a\<rparr>])"
    using inactive_session_still_asks
      [OF inactive send question, where runner = "stub_answer ''A''" and v = "''vs''"]
    by blast
  then have "messages (state (chat_input_handler (stub_answer ''A'') ''vs'' ended_state
                                (Some ''Q''))) =
     [end_message, \<lparr>role = ''user'', content = ''Q''\<rparr>, \<lparr>role = ''assistant'', content = ''A''\<rparr>]"
    by (simp add: stub_answer_def ended_state_def end_conversation_def append_message_def
        initial_session_state_def)
  with inactive send question show ?thesis by blast
qed

subsection \<open>The conversation store and the lifecycle\<close>

text \<open>
  Claim C3. After any sequence of \<open>Append\<close> and \<open>Clear\<close> operations the store holds
  the messages appended since the last \<open>Clear\<close>, in the order of their insertion,
  after the messages it started with when nothing was cleared. Its length is the number
  of messages it started with plus the number of appends, minus the messages that the
  clears removed (each \<open>Clear\<close> removing what the store held when it ran). Clearing
  empties it, and from a cleared store only the later appends count.
\<close>

theorem store_keeps_insertion_order:
  "messages (run_ops s ops) =
     (if Clear \<in> set ops then [] else messages s) @ appended (since_last_clear ops) \<and>
   length (messages (run_ops s ops)) =
     length (messages s) + length (appended ops) - removed_by_clear s ops \<and>
   messages (clear_conversation s) = [] \<and>
   messages (run_ops (clear_conversation s) ops) = appended (since_last_clear ops)"
proof -
  have order: "messages (run_ops s ops) =
     (if Clear \<in> set ops then [] else messages s) @ appended (since_last_clear ops)"
    by (rule messages_run_ops)
  have len: "length (messages (run_ops s ops)) =
     length (messages s) + length (appended ops) - removed_by_clear s ops"
    using length_run_ops [of s ops] by arith
  have cleared: "messages (clear_conversation s) = []"
    by (simp add: clear_conversation_def)
  have fresh: "messages (run_ops (clear_conversation s) ops) = appended (since_last_clear ops)"
    by (simp add: messages_run_ops cleared)
  from order len cleared fresh show ?thesis by blast
qed

text \<open>
  Claim C6. Ending the conversation lowers \<open>conversation_active\<close> and appends the one
  fixed closing message, whose role is \<open>assistant\<close>, after the messages already stored,
  which stay as they are; the two source flags stay too. Ending twice appends the
  closing message twice.
\<close>

theorem end_appends_closing_message:
  "conversation_active (end_conversation s) = False \<and>
   messages (end_conversation s) = messages s @ [end_message] \<and>
   role end_message = ''assistant'' \<and>
   use_web_search (end_conversation s) = use_web_search s \<and>
   use_file_search (end_conversation s) = use_file_search s \<and>
   messages (end_conversation (end_conversation s)) = messages s @ [end_message, end_message] \<and>
   conversation_active (end_conversation (end_conversation s)) = False"
  by (simp add: end_conversation_def append_message_def end_message_def)

text \<open>
  Claim C10. Clearing the conversation changes the message list only: the two source
  flags and \<open>conversation_active\<close> are what they were.
\<close>

theorem clear_changes_messages_only:
  "use_web_search (clear_conversation s) = use_web_search s \<and>
   use_file_search (clear_conversation s) = use_file_search s \<and>
   conversation_active (clear_conversation s) = conversation_active s \<and>
   messages (clear_conversation s) = [] \<and>
   clear_conversation s = s\<lparr>messages := []\<rparr>"
  by (simp add: clear_conversation_def)

subsection \<open>The transcript\<close>

text \<open>
  Claim C8. The transcript is the fixed head, one block for each message in order, and
  the closing tags. In a block the content appears character by character in escaped
  form: \<open>&\<close>, \<open><\<close> and \<open>>\<close> as their entities, a line feed as \<open><br>\<close>, any other
  character as itself. So the escaped content has no \<open><\<close> besides those of \<open><br>\<close>,
  no \<open>>\<close> besides those, no \<open>&\<close> that does not start an entity, and no line feed.
\<close>

theorem transcript_escapes_content:
  \<open>format_messages_as_html msgs =
     html_head @ concat (map message_div msgs) @ ''</body></html>'' \<and>
   message_div m =
     ''<div class="message '' @ (if role m = ''user'' then ''user'' else ''assistant'') @
     ''"><strong>'' @ capitalize (role m) @ '':</strong><br>'' @
     concat (map escape_char (content m)) @ ''</div>'' \<and>
   escape_content c = concat (map escape_char c) \<and>
   well_escaped (escape_content c)\<close>
proof -
  have doc: "format_messages_as_html msgs =
      html_head @ concat (map message_div msgs) @ ''</body></html>''"
    by (simp add: format_messages_as_html_def foldl_message_div)
  have block: \<open>message_div m =
      ''<div class="message '' @ (if role m = ''user'' then ''user'' else ''assistant'') @
      ''"><strong>'' @ capitalize (role m) @ '':</strong><br>'' @
      concat (map escape_char (content m)) @ ''</div>''\<close>
    by (simp add: message_div_def Let_def escape_content_chars)
  have chars: "escape_content c = concat (map escape_char c)"
    by (rule escape_content_chars)
  have safe: "well_escaped (escape_content c)"
    by (rule well_escaped_content)
  from doc block chars safe show ?thesis by blast
qed

end
